theory Spec2Isabelle
  imports Main
begin

section \<open>PrefsCodeHints: the preferences code-hint provider\<close>

text \<open>
  A shallow embedding of \<^verbatim>\<open>src/extensions/default/PrefsCodeHints/main.js\<close>.
  JavaScript strings are modelled as \<^typ>\<open>string\<close>, one list element per code unit
  (every literal of the source is ASCII). Numbers that hold columns and offsets are
  \<^typ>\<open>int\<close>. A property that may be \<^verbatim>\<open>undefined\<close> or \<^verbatim>\<open>null\<close> is an
  \<^typ>\<open>'a option\<close>; both read as \<^term>\<open>None\<close>, since the source only tests them for
  truthiness or compares them with string literals; the one place that tells them apart,
  \<^verbatim>\<open>$.extend\<close>, reads its source through a type that keeps them apart. A property
  read \<^verbatim>\<open>obj[k]\<close> finds the object's own properties and those every plain object
  inherits.
\<close>

subsection \<open>Values and truthiness\<close>

abbreviation dquote :: char where "dquote \<equiv> CHR 0x22"
abbreviation squote :: char where "squote \<equiv> CHR 0x27"

text \<open>A string-valued property is truthy when it is defined and not empty.\<close>

definition truthy :: "string option \<Rightarrow> bool" where
  "truthy s = (case s of None \<Rightarrow> False | Some t \<Rightarrow> t \<noteq> [])"

text \<open>\<^verbatim>\<open>a || b\<close> on string-valued properties.\<close>

definition js_or :: "string option \<Rightarrow> string option \<Rightarrow> string option" where
  "js_or a b = (if truthy a then a else b)"

text \<open>
  String concatenation with a possibly undefined operand: \<^verbatim>\<open>undefined + "x"\<close> is the
  text \<^verbatim>\<open>"undefinedx"\<close>.
\<close>

definition js_str :: "string option \<Rightarrow> string" where
  "js_str s = (case s of None \<Rightarrow> ''undefined'' | Some t \<Rightarrow> t)"

text \<open>A property name: \<^verbatim>\<open>obj[null]\<close> reads the property called \<^verbatim>\<open>"null"\<close>.\<close>

definition propName :: "string option \<Rightarrow> string" where
  "propName k = (case k of None \<Rightarrow> ''null'' | Some s \<Rightarrow> s)"

text \<open>Whitespace removed by \<^verbatim>\<open>String.prototype.trim\<close> (its ASCII part).\<close>

definition isSpace :: "char \<Rightarrow> bool" where
  "isSpace c = (c \<in> set [CHR 0x20, CHR 0x09, CHR 0x0A, CHR 0x0B, CHR 0x0C, CHR 0x0D])"

definition trim :: "string \<Rightarrow> string" where
  "trim s = rev (dropWhile isSpace (rev (dropWhile isSpace s)))"

text \<open>\<^verbatim>\<open>s.substr(0, n)\<close>: the first \<open>n\<close> code units, none when \<open>n\<close> is negative.\<close>

definition substr0 :: "string \<Rightarrow> int \<Rightarrow> string" where
  "substr0 s n = take (nat n) s"

text \<open>
  \<^verbatim>\<open>/^['"]$/.test(s.charAt(0))\<close>, returning the quote character found:
  \<^verbatim>\<open>charAt(0)\<close> of the empty string is the empty string, which the pattern rejects.
\<close>

definition quoteOf :: "string \<Rightarrow> string option" where
  "quoteOf s = (case s of [] \<Rightarrow> None
                | c # _ \<Rightarrow> if c = squote \<or> c = dquote then Some [c] else None)"

subsection \<open>Preference values and schema entries\<close>

text \<open>
  An element of a preference's \<^verbatim>\<open>values\<close> array: a string or a number (integers only;
  the fractional and exponent forms of a JavaScript number are outside this model).
\<close>

datatype pval = PStr string | PNum int

function decimal :: "nat \<Rightarrow> string" where
  "decimal n = (if n < 10 then [char_of (48 + n)] else decimal (n div 10) @ [char_of (48 + n mod 10)])"
  by pat_completeness auto
termination
  by (relation "measure id") auto

text \<open>\<^verbatim>\<open>val.toString()\<close>\<close>

definition toString :: "pval \<Rightarrow> pval" where
  "toString v = (case v of PStr s \<Rightarrow> PStr s
                 | PNum i \<Rightarrow> PStr (if i < 0 then CHR ''-'' # decimal (nat (- i)) else decimal (nat i)))"

text \<open>
  A preference descriptor, with the properties the source reads: \<^verbatim>\<open>type\<close>,
  \<^verbatim>\<open>description\<close>, \<^verbatim>\<open>keys\<close>, \<^verbatim>\<open>values\<close>, \<^verbatim>\<open>valueType\<close> and
  \<^verbatim>\<open>excludeFromHints\<close>. An object used as a dictionary is an association list in
  insertion order, which is the order of \<^verbatim>\<open>Object.keys\<close> for names that are not
  array indices; its keys are distinct.
\<close>

datatype entry = Entry
  (etype : "string option")
  (description : "string option")
  (keys : "(string \<times> entry) list option")
  (evalues : "pval list option")
  (valueType : "string option")
  (excludeFromHints : "bool option")

text \<open>The names that every plain object inherits from \<^verbatim>\<open>Object.prototype\<close>.\<close>

definition inheritedNames :: "string list" where
  "inheritedNames =
     [''constructor'', ''hasOwnProperty'', ''isPrototypeOf'', ''propertyIsEnumerable'',
      ''toLocaleString'', ''toString'', ''valueOf'', ''__proto__'', ''__defineGetter__'',
      ''__defineSetter__'', ''__lookupGetter__'', ''__lookupSetter__'']"

text \<open>
  The value inherited under such a name, through the properties the source reads. Each is
  a function (or the prototype itself) without \<^verbatim>\<open>type\<close>, \<^verbatim>\<open>description\<close>,
  \<^verbatim>\<open>valueType\<close> or \<^verbatim>\<open>excludeFromHints\<close>. The constructor, \<^verbatim>\<open>Object\<close>, has
  \<^verbatim>\<open>keys\<close> and \<^verbatim>\<open>values\<close>: the functions \<^verbatim>\<open>Object.keys\<close> and
  \<^verbatim>\<open>Object.values\<close>, which are truthy and have no enumerable property; what a function
  has beyond the names of \<^verbatim>\<open>Object.prototype\<close> is left out.
\<close>

definition inheritedValue :: "string \<Rightarrow> entry" where
  "inheritedValue name =
     (if name = ''constructor'' then Entry None None (Some []) (Some []) None None
      else Entry None None None None None None)"

text \<open>\<^verbatim>\<open>obj[k]\<close>: an own property first, an inherited one otherwise.\<close>

definition getProp :: "(string \<times> entry) list \<Rightarrow> string option \<Rightarrow> entry option" where
  "getProp obj k =
     (case map_of obj (propName k) of
        Some v \<Rightarrow> Some v
      | None \<Rightarrow> if propName k \<in> set inheritedNames then Some (inheritedValue (propName k))
                else None)"





subsection \<open>The context produced by JSONUtils.getContextInfo\<close>

datatype token_type = TOKEN_KEY | TOKEN_VALUE

record token =
  tstring :: string
  tstart :: int
  tend :: int

record ctxInfo =
  token :: "token option"
  tokenType :: "token_type option"
  offset :: int
  keyName :: "string option"
  parentKeyName :: "string option"
  isArray :: bool
  exclusionList :: "string list"
  shouldReplace :: bool

record pos =
  line :: int
  ch :: int

text \<open>
  The editor as the provider reads it: its mode, its cursor, and what
  \<^verbatim>\<open>JSONUtils.getContextInfo(editor, editor.getCursorPos(), requireParent, requireNextToken)\<close>
  answers at that cursor for the two flags (a missing flag is \<open>False\<close>).
\<close>

record editor =
  getModeForSelection :: string
  getCursorPos :: pos
  getContextInfo :: "bool \<Rightarrow> bool \<Rightarrow> ctxInfo option"

text \<open>The provider object: \<^verbatim>\<open>this.editor\<close> and \<^verbatim>\<open>this.ctxInfo\<close>.\<close>

record provider =
  this_editor :: "editor option"
  this_ctxInfo :: "ctxInfo option"

text \<open>Reading a property of \<^verbatim>\<open>undefined\<close> or \<^verbatim>\<open>null\<close> throws.\<close>

datatype error = TypeError

subsection \<open>Rendered hints\<close>

text \<open>
  A match object as the source reads and writes it: \<^verbatim>\<open>stringRanges\<close>
  (\<^verbatim>\<open>{text, matched}\<close> items), \<^verbatim>\<open>value\<close>, and the \<^verbatim>\<open>type\<close> and
  \<^verbatim>\<open>description\<close> that getHints stores on it.
\<close>

record match =
  stringRanges :: "(string \<times> bool) list option"
  mvalue :: "string option"
  mtype :: "string option"
  mdescription :: "string option"

text \<open>
  What formatHints builds for one match: the children of the \<^verbatim>\<open>.hint-obj\<close> span
  (text with its matched flag), the \<^verbatim>\<open>data("type")\<close> slot and the text of the
  \<^verbatim>\<open>.hint-description\<close> span, when there is one. The source appends an unmatched
  range as markup; the texts are taken to hold none.
\<close>

record hintItem =
  hintObj :: "(string \<times> bool) list"
  dataType :: "string option"
  hintDescription :: "string option"

text \<open>\<^verbatim>\<open>completion.find(".hint-obj").text()\<close>\<close>

definition hintText :: "hintItem \<Rightarrow> string" where
  "hintText h = concat (map fst (hintObj h))"

subsection \<open>The other modules\<close>

record theme =
  theme_name :: string

text \<open>
  What the provider uses of modules other than its own:
  \<^verbatim>\<open>JSONUtils.stripQuotes\<close>, \<^verbatim>\<open>JSONUtils.regexAllowedChars.test\<close>,
  \<^verbatim>\<open>StringMatch.stringMatch\<close> with the fixed \<^verbatim>\<open>stringMatcherOptions\<close>
  (\<^term>\<open>None\<close> when it answers with a falsy value),
  \<^verbatim>\<open>StringMatch.basicMatchSort\<close> (the list after the in-place sort), the
  \<^verbatim>\<open>languages\<close> map kept from \<^verbatim>\<open>LanguageManager.getLanguages()\<close>,
  \<^verbatim>\<open>CodeInspection.getProviderIDsForLanguage\<close> and \<^verbatim>\<open>ThemeManager.getAllThemes()\<close>.
\<close>

record env =
  stripQuotes :: "string \<Rightarrow> string"
  regexAllowedChars :: "string \<Rightarrow> bool"
  stringMatch :: "pval \<Rightarrow> string \<Rightarrow> match option"
  basicMatchSort :: "match list \<Rightarrow> match list"
  languages :: "(string \<times> entry) list"
  getProviderIDsForLanguage :: "string option \<Rightarrow> string list"
  getAllThemes :: "theme list"

text \<open>The argument of insertHint: a plain string, or a rendered hint.\<close>

datatype completion = PlainString string | JQuery hintItem

subsection \<open>insertHint\<close>

text \<open>The calls insertHint makes on the editor, in order.\<close>

datatype editor_op =
    ReplaceRange string pos pos
  | SetCursorPos int int

text \<open>The \<^verbatim>\<open>switch (type)\<close> of the key branch.\<close>

definition emptyBody :: "string option \<Rightarrow> string" where
  "emptyBody ty =
     (if ty = Some ''object'' then ''{}''
      else if ty = Some ''array'' then ''[]''
      else if ty = Some ''string'' then [dquote, dquote]
      else [])"

definition pairedType :: "string option \<Rightarrow> bool" where
  "pairedType ty = (ty \<in> set [Some ''object'', Some ''array'', Some ''string''])"

definition completionType :: "completion \<Rightarrow> string option" where
  "completionType c = (case c of PlainString _ \<Rightarrow> None | JQuery h \<Rightarrow> dataType h)"

definition completionText :: "completion \<Rightarrow> string" where
  "completionText c = (case c of PlainString s \<Rightarrow> s | JQuery h \<Rightarrow> hintText h)"

text \<open>The key branch, once the token is known.\<close>

definition insertKey ::
  "ctxInfo \<Rightarrow> token \<Rightarrow> pos \<Rightarrow> string \<Rightarrow> string option \<Rightarrow> editor_op list \<times> bool option" where
  "insertKey ctx tok p text ty =
     (let quoteChar = quoteOf (tstring tok);
          quoted = js_str quoteChar @ text @ js_str quoteChar;
          completion = (if \<not> shouldReplace ctx then quoted @ '': '' @ emptyBody ty else quoted);
          start = \<lparr>line = line p, ch = ch p - offset ctx\<rparr>;
          endp = \<lparr>line = line p, ch = tend tok\<rparr>;
          replace = ReplaceRange completion start endp
      in if pairedType ty
         then ([replace, SetCursorPos (line start) (ch start + int (length completion) - 1)],
               Some (ty \<noteq> Some ''object'' \<and> \<not> shouldReplace ctx))
         else ([replace], Some True))"

text \<open>The value branch.\<close>

definition insertValue ::
  "env \<Rightarrow> ctxInfo \<Rightarrow> token \<Rightarrow> pos \<Rightarrow> string \<Rightarrow> string option
     \<Rightarrow> editor_op list \<times> bool option" where
  "insertValue e ctx tok p text ty =
     (let (startCh, endCh) =
            (if regexAllowedChars e (tstring tok) then (ch p, ch p)
             else if shouldReplace ctx then (tstart tok, tend tok)
             else (ch p - offset ctx, tend tok));
          completion =
            (if \<not> truthy ty \<or> ty = Some ''string''
             then (let quoteChar = (case quoteOf (tstring tok) of Some q \<Rightarrow> q | None \<Rightarrow> [dquote])
                   in quoteChar @ text @ quoteChar)
             else text)
      in ([ReplaceRange completion \<lparr>line = line p, ch = startCh\<rparr> \<lparr>line = line p, ch = endCh\<rparr>],
          Some False))"

text \<open>
  insertHint. The result is the list of editor calls and the returned value
  (\<^term>\<open>None\<close> when the function falls off its end and returns \<^verbatim>\<open>undefined\<close>);
  \<^term>\<open>Inl TypeError\<close> when the source dereferences a missing editor, context or token.
\<close>

definition insertHint ::
  "env \<Rightarrow> provider \<Rightarrow> completion \<Rightarrow> error + (editor_op list \<times> bool option)" where
  "insertHint e this c =
     (case this_editor this of
        None \<Rightarrow> Inl TypeError
      | Some ed \<Rightarrow>
          (let ci = getContextInfo ed False True;
               p = getCursorPos ed;
               ty = completionType c;
               text = completionText c
           in case ci of
                None \<Rightarrow> Inl TypeError
              | Some ctx \<Rightarrow>
                  (case tokenType ctx of
                     Some TOKEN_KEY \<Rightarrow>
                       (case token ctx of
                          None \<Rightarrow> Inl TypeError
                        | Some tok \<Rightarrow> Inr (insertKey ctx tok p text ty))
                   | Some TOKEN_VALUE \<Rightarrow>
                       (case token ctx of
                          None \<Rightarrow> Inl TypeError
                        | Some tok \<Rightarrow> Inr (insertValue e ctx tok p text ty))
                   | None \<Rightarrow> Inr ([], None))))"

subsection \<open>The schema registry\<close>








subsection \<open>hasHints\<close>

definition parentKeyBlacklist :: "string list" where
  "parentKeyBlacklist = [''language.fileExtensions'', ''language.fileNames'', ''path'']"

text \<open>\<^verbatim>\<open>parentKeyBlacklist.indexOf(name) !== -1\<close>; \<^verbatim>\<open>null\<close> is not in the list.\<close>

definition blacklisted :: "string option \<Rightarrow> bool" where
  "blacklisted name = (case name of None \<Rightarrow> False | Some n \<Rightarrow> n \<in> set parentKeyBlacklist)"

text \<open>
  hasHints, from the module flag \<^verbatim>\<open>isPrefHintsEnabled\<close>: the answer and the provider
  with the editor and context it has stored.
\<close>

definition hasHints :: "bool \<Rightarrow> provider \<Rightarrow> editor \<Rightarrow> bool \<times> provider" where
  "hasHints isPrefHintsEnabled this ed =
     (if isPrefHintsEnabled \<and> getModeForSelection ed = ''application/json''
      then (let this' = \<lparr>this_editor = Some ed, this_ctxInfo = getContextInfo ed True False\<rparr>
            in case this_ctxInfo this' of
                 None \<Rightarrow> (False, this')
               | Some ctx \<Rightarrow>
                   (case tokenType ctx of
                      None \<Rightarrow> (False, this')
                    | Some tt \<Rightarrow>
                        if tt = TOKEN_KEY \<and> blacklisted (parentKeyName ctx) then (False, this')
                        else (True, this')))
      else (False, this))"

subsection \<open>getHints\<close>

text \<open>The query: the token up to the cursor, without quotes, trimmed, or nothing.\<close>

definition getQuery :: "env \<Rightarrow> token \<Rightarrow> int \<Rightarrow> string" where
  "getQuery e tok off =
     (let query = trim (stripQuotes e (substr0 (tstring tok) off))
      in if regexAllowedChars e query then [] else query)"

text \<open>
  The key branch: the object whose keys are offered, and the type given to a key
  that has none (\<^verbatim>\<open>option.type\<close>).
\<close>

definition keysFor :: "env \<Rightarrow> (string \<times> entry) list \<Rightarrow> ctxInfo \<Rightarrow> (string \<times> entry) list \<times> string option" where
  "keysFor e data ctx =
     (let other = (if parentKeyName ctx = Some ''language'' then (languages e, Some ''object'')
                   else (data, None))
      in case getProp data (parentKeyName ctx) of
           None \<Rightarrow> other
         | Some parent \<Rightarrow> (case keys parent of None \<Rightarrow> other | Some ks \<Rightarrow> (ks, None)))"

text \<open>The function mapped over \<^verbatim>\<open>Object.keys(keys)\<close>; \<^term>\<open>None\<close> is dropped by \<^verbatim>\<open>$.map\<close>.\<close>

definition keyHint :: "env \<Rightarrow> ctxInfo \<Rightarrow> string \<Rightarrow> string option \<Rightarrow> string \<times> entry \<Rightarrow> match option" where
  "keyHint e ctx query optionType kv =
     (case kv of (key, k) \<Rightarrow>
        if key \<in> set (exclusionList ctx) then None
        else (case stringMatch e (PStr key) query of
                None \<Rightarrow> None
              | Some m \<Rightarrow> Some (m\<lparr>mtype := js_or (etype k) optionType,
                                  mdescription := js_or (description k) None\<rparr>)))"

definition keyHints :: "env \<Rightarrow> (string \<times> entry) list \<Rightarrow> ctxInfo \<Rightarrow> string \<Rightarrow> match list" where
  "keyHints e data ctx query =
     (case keysFor e data ctx of (ks, optionType) \<Rightarrow>
        List.map_filter (keyHint e ctx query optionType) ks)"

text \<open>The value branch: the option descriptor of the current key.\<close>

definition defaultOption :: entry where
  "defaultOption = Entry None None None None None None"

text \<open>
  The first of the two lookups on its own: the child entry
  \<^verbatim>\<open>data[parentKeyName].keys[keyName]\<close>, when there is one.
\<close>

definition nestedOption :: "(string \<times> entry) list \<Rightarrow> ctxInfo \<Rightarrow> entry option" where
  "nestedOption data ctx =
     (case getProp data (parentKeyName ctx) of
        None \<Rightarrow> None
      | Some parent \<Rightarrow>
          (case keys parent of None \<Rightarrow> None | Some ks \<Rightarrow> getProp ks (keyName ctx)))"

definition resolveOption :: "(string \<times> entry) list \<Rightarrow> ctxInfo \<Rightarrow> entry" where
  "resolveOption data ctx =
     (let root = (case getProp data (keyName ctx) of None \<Rightarrow> defaultOption | Some opt \<Rightarrow> opt)
      in case getProp data (parentKeyName ctx) of
           None \<Rightarrow> root
         | Some parent \<Rightarrow>
             (case keys parent of
                None \<Rightarrow> root
              | Some ks \<Rightarrow> (case getProp ks (keyName ctx) of None \<Rightarrow> root | Some opt \<Rightarrow> opt)))"

text \<open>The conditions of the chain that picks the values, in the order of the source.\<close>

definition allowedValuesApply :: "ctxInfo \<Rightarrow> entry \<Rightarrow> bool" where
  "allowedValuesApply ctx opt =
     (evalues opt \<noteq> None \<and>
      (etype opt \<in> set [Some ''number'', Some ''string''] \<or>
       (etype opt = Some ''array'' \<and> isArray ctx)))"

definition lintProvidersApply :: "env \<Rightarrow> ctxInfo \<Rightarrow> bool" where
  "lintProvidersApply e ctx =
     (isArray ctx \<and> keyName ctx = Some ''linting.prefer'' \<and>
      getProp (languages e) (parentKeyName ctx) \<noteq> None)"

definition themesApply :: "ctxInfo \<Rightarrow> bool" where
  "themesApply ctx = (keyName ctx = Some ''themes.theme'')"

definition languageNamesApply :: "ctxInfo \<Rightarrow> bool" where
  "languageNamesApply ctx =
     (parentKeyName ctx = Some ''language.fileExtensions'' \<or>
      parentKeyName ctx = Some ''language.fileNames'')"

text \<open>The values offered for the option; \<^term>\<open>None\<close> is the \<^verbatim>\<open>return null\<close> of the last branch.\<close>

definition getValues :: "env \<Rightarrow> ctxInfo \<Rightarrow> entry \<Rightarrow> pval list option" where
  "getValues e ctx opt =
     (if etype opt = Some ''boolean'' then Some [PStr ''false'', PStr ''true'']
      else if allowedValuesApply ctx opt then evalues opt
      else if lintProvidersApply e ctx
      then Some (map PStr (getProviderIDsForLanguage e (parentKeyName ctx)))
      else if themesApply ctx
      then Some (map (\<lambda>t. PStr (theme_name t)) (getAllThemes e))
      else if languageNamesApply ctx
      then Some (map (\<lambda>kv. PStr (fst kv)) (languages e))
      else None)"

text \<open>Numbers are turned into strings before matching.\<close>

definition stringifyValues :: "entry \<Rightarrow> pval list \<Rightarrow> pval list" where
  "stringifyValues opt vals =
     (if etype opt = Some ''number'' \<or> valueType opt = Some ''number''
      then map toString vals else vals)"

definition valueHint :: "env \<Rightarrow> entry \<Rightarrow> string \<Rightarrow> pval \<Rightarrow> match option" where
  "valueHint e opt query v =
     (case stringMatch e v query of
        None \<Rightarrow> None
      | Some m \<Rightarrow> Some (m\<lparr>mtype := js_or (valueType opt) (etype opt),
                          mdescription := js_or (description opt) None\<rparr>))"

definition valueHints :: "env \<Rightarrow> entry \<Rightarrow> pval list \<Rightarrow> string \<Rightarrow> match list" where
  "valueHints e opt vals query = List.map_filter (valueHint e opt query) vals"

text \<open>formatHints: one rendered item per match, in the order basicMatchSort leaves.\<close>

definition renderHint :: "bool \<Rightarrow> match \<Rightarrow> hintItem" where
  "renderHint hasMetadata t =
     \<lparr>hintObj = (case stringRanges t of
                   Some ranges \<Rightarrow> ranges
                 | None \<Rightarrow> (case mvalue t of None \<Rightarrow> [] | Some v \<Rightarrow> [(v, False)])),
      dataType = (if hasMetadata then mtype t else None),
      hintDescription = (if hasMetadata \<and> truthy (mdescription t) then mdescription t else None)\<rparr>"

definition formatHints :: "env \<Rightarrow> match list \<Rightarrow> string \<Rightarrow> hintItem list" where
  "formatHints e hs query =
     (let hasMetadata = list_ex (\<lambda>t. truthy (mtype t) \<or> truthy (mdescription t)) hs
      in map (renderHint hasMetadata) (basicMatchSort e hs))"

record hintResponse =
  hints :: "hintItem list"
  rmatch :: "string option"
  selectInitial :: bool
  handleWideResults :: bool

definition response :: "hintItem list \<Rightarrow> hintResponse" where
  "response hs = \<lparr>hints = hs, rmatch = None, selectInitial = True, handleWideResults = False\<rparr>"

text \<open>
  The unranked value candidates of a context: \<^verbatim>\<open>values\<close> as it stands when the
  filter over it starts.
\<close>

definition candidateValues :: "env \<Rightarrow> (string \<times> entry) list \<Rightarrow> ctxInfo \<Rightarrow> pval list option" where
  "candidateValues e data ctx =
     (let opt = resolveOption data ctx
      in map_option (stringifyValues opt) (getValues e ctx opt))"

text \<open>The part of getHints that follows the test \<^verbatim>\<open>ctxInfo && ctxInfo.token\<close>.\<close>

definition hintsFor :: "env \<Rightarrow> (string \<times> entry) list \<Rightarrow> ctxInfo \<Rightarrow> token \<Rightarrow> hintResponse option" where
  "hintsFor e data ctx tok =
     (let query = getQuery e tok (offset ctx)
      in case tokenType ctx of
           Some TOKEN_KEY \<Rightarrow> Some (response (formatHints e (keyHints e data ctx query) query))
         | Some TOKEN_VALUE \<Rightarrow>
             (case candidateValues e data ctx of
                None \<Rightarrow> None
              | Some vals \<Rightarrow>
                  Some (response (formatHints e (valueHints e (resolveOption data ctx) vals query) query)))
         | None \<Rightarrow> Some (response (formatHints e [] query)))"

text \<open>
  getHints: the provider with the context it has stored, and the answer
  (\<^term>\<open>None\<close> for \<^verbatim>\<open>null\<close>); \<^term>\<open>Inl TypeError\<close> when \<^verbatim>\<open>this.editor\<close> is missing.
\<close>

definition getHints :: "env \<Rightarrow> (string \<times> entry) list \<Rightarrow> provider \<Rightarrow> error + (provider \<times> hintResponse option)" where
  "getHints e data this =
     (case this_editor this of
        None \<Rightarrow> Inl TypeError
      | Some ed \<Rightarrow>
          (let ci = getContextInfo ed True False;
               this' = this\<lparr>this_ctxInfo := ci\<rparr>
           in case ci of
                None \<Rightarrow> Inr (this', None)
              | Some ctx \<Rightarrow>
                  (case token ctx of
                     None \<Rightarrow> Inr (this', None)
                   | Some tok \<Rightarrow> Inr (this', hintsFor e data ctx tok))))"

subsection \<open>Reading the edit\<close>

text \<open>
  The cursor column \<open>cur\<close> lies immediately inside the pair that ends the text
  inserted at column \<open>startCh\<close>: the text ends with \<^verbatim>\<open>{}\<close>, \<^verbatim>\<open>[]\<close> or two
  double quotes, and the cursor is one column before the end of the text.
\<close>

definition insidePair :: "string \<Rightarrow> int \<Rightarrow> int \<Rightarrow> bool" where
  "insidePair text startCh cur =
     (2 \<le> length text \<and>
      drop (length text - 2) text \<in> set [''{}'', ''[]'', [dquote, dquote]] \<and>
      cur = startCh + int (length text) - 1)"

subsection \<open>Stand-ins for the other modules, for running the model\<close>

text \<open>
  Modelled from the spec: \<^verbatim>\<open>JSONUtils.stripQuotes\<close> is not under src/. Section 4.4 has
  the query "stripped of surrounding quote characters": a quote at the front and a quote
  at the back are removed.
\<close>

definition stripQuotesModel :: "string \<Rightarrow> string" where
  "stripQuotesModel s =
     (let s1 = (if quoteOf s = None then s else tl s)
      in if quoteOf (rev s1) = None then s1 else butlast s1)"

text \<open>
  Modelled from the spec: \<^verbatim>\<open>JSONUtils.regexAllowedChars\<close> is not under src/. Section 4.5
  calls the tokens it accepts "purely whitespace/placeholder": a non-empty run of
  whitespace, or one of the single characters that stand where a value is still to come.
\<close>

definition regexAllowedModel :: "string \<Rightarrow> bool" where
  "regexAllowedModel s = (s \<in> set ['':'', '','', ''[''] \<or> (s \<noteq> [] \<and> list_all isSpace s))"

text \<open>
  Modelled from the spec: \<^verbatim>\<open>StringMatch.stringMatch\<close> is not under src/. By sections 4.4
  and 8 the empty query matches every candidate, a query that is a prefix of the candidate
  matches, and the ranges split the candidate's text into matched and unmatched spans. This
  stand-in accepts the prefix matches of string candidates and nothing else.
\<close>

definition prefixMatch :: "pval \<Rightarrow> string \<Rightarrow> match option" where
  "prefixMatch v query =
     (case v of
        PNum _ \<Rightarrow> None
      | PStr s \<Rightarrow>
          if query = [] then
            Some \<lparr>stringRanges = Some [(s, False)], mvalue = None, mtype = None, mdescription = None\<rparr>
          else if take (length query) s = query then
            Some \<lparr>stringRanges = Some [(query, True), (drop (length query) s, False)],
                  mvalue = None, mtype = None, mdescription = None\<rparr>
          else None)"

text \<open>
  Modelled from the spec: \<^verbatim>\<open>StringMatch.basicMatchSort\<close> is not under src/. Section 4.4
  asks for a stable order; this stand-in ranks all matches alike, so the order stays.
\<close>

definition keepOrder :: "match list \<Rightarrow> match list" where
  "keepOrder ms = ms"

definition noEntry :: entry where
  "noEntry = Entry None None None None None None"

definition testEnv :: env where
  "testEnv =
     \<lparr>stripQuotes = stripQuotesModel,
      regexAllowedChars = regexAllowedModel,
      stringMatch = prefixMatch,
      basicMatchSort = keepOrder,
      languages = [(''javascript'', noEntry), (''css'', noEntry)],
      getProviderIDsForLanguage = (\<lambda>l. if l = Some ''javascript'' then [''JSLint'', ''ESLint''] else []),
      getAllThemes = [\<lparr>theme_name = ''light-theme''\<rparr>, \<lparr>theme_name = ''dark-theme''\<rparr>]\<rparr>"

text \<open>An editor that answers every context request with the same context.\<close>

definition editorAt :: "pos \<Rightarrow> ctxInfo \<Rightarrow> editor" where
  "editorAt p ctx =
     \<lparr>getModeForSelection = ''application/json'', getCursorPos = p,
      getContextInfo = (\<lambda>requireParent requireNextToken. Some ctx)\<rparr>"

definition providerAt :: "pos \<Rightarrow> ctxInfo \<Rightarrow> provider" where
  "providerAt p ctx = \<lparr>this_editor = Some (editorAt p ctx), this_ctxInfo = None\<rparr>"

text \<open>A rendered hint with the given text and type.\<close>

definition hintOf :: "string \<Rightarrow> string option \<Rightarrow> completion" where
  "hintOf text ty = JQuery \<lparr>hintObj = [(text, False)], dataType = ty, hintDescription = None\<rparr>"

text \<open>A key context on an empty line: the token is empty and the cursor is at column 0.\<close>

definition emptyLineKey :: ctxInfo where
  "emptyLineKey =
     \<lparr>token = Some \<lparr>tstring = [], tstart = 0, tend = 0\<rparr>, tokenType = Some TOKEN_KEY,
      offset = 0, keyName = None, parentKeyName = None, isArray = False,
      exclusionList = [], shouldReplace = False\<rparr>"

text \<open>A key context whose token is the unquoted text \<^verbatim>\<open>fo\<close> at columns 4 to 6.\<close>

definition bareKey :: ctxInfo where
  "bareKey =
     \<lparr>token = Some \<lparr>tstring = ''fo'', tstart = 4, tend = 6\<rparr>, tokenType = Some TOKEN_KEY,
      offset = 2, keyName = Some ''fo'', parentKeyName = None, isArray = False,
      exclusionList = [], shouldReplace = False\<rparr>"

text \<open>A key context whose token is an opening double quote followed by \<^verbatim>\<open>fo\<close>.\<close>

definition quotedKey :: "bool \<Rightarrow> ctxInfo" where
  "quotedKey replace =
     \<lparr>token = Some \<lparr>tstring = dquote # ''fo'', tstart = 4, tend = 7\<rparr>, tokenType = Some TOKEN_KEY,
      offset = 3, keyName = Some ''fo'', parentKeyName = None, isArray = False,
      exclusionList = [], shouldReplace = replace\<rparr>"

text \<open>A value context whose token is \<^verbatim>\<open>'b'\<close> at columns 10 to 13, to be replaced whole.\<close>

definition singleQuotedValue :: ctxInfo where
  "singleQuotedValue =
     \<lparr>token = Some \<lparr>tstring = squote # ''b'' @ [squote], tstart = 10, tend = 13\<rparr>,
      tokenType = Some TOKEN_VALUE, offset = 2, keyName = Some ''k'', parentKeyName = None,
      isArray = False, exclusionList = [], shouldReplace = True\<rparr>"

text \<open>The text a match is rendered with.\<close>

definition matchText :: "match \<Rightarrow> string" where
  "matchText m = hintText (renderHint False m)"

text \<open>A key context under the parent \<^verbatim>\<open>language.fileExtensions\<close>.\<close>

definition fileExtensionsKey :: ctxInfo where
  "fileExtensionsKey =
     \<lparr>token = Some \<lparr>tstring = [dquote], tstart = 8, tend = 9\<rparr>, tokenType = Some TOKEN_KEY,
      offset = 1, keyName = Some [], parentKeyName = Some ''language.fileExtensions'',
      isArray = False, exclusionList = [], shouldReplace = False\<rparr>"

text \<open>
  A value context for the key \<open>k\<close> under the parent \<open>parent\<close>, on an opening double
  quote, with the sibling names \<open>excl\<close>.
\<close>

definition valueCtx :: "string option \<Rightarrow> string \<Rightarrow> bool \<Rightarrow> string list \<Rightarrow> ctxInfo" where
  "valueCtx parent k inArray excl =
     \<lparr>token = Some \<lparr>tstring = [dquote], tstart = 12, tend = 13\<rparr>, tokenType = Some TOKEN_VALUE,
      offset = 1, keyName = Some k, parentKeyName = parent, isArray = inArray,
      exclusionList = excl, shouldReplace = False\<rparr>"

text \<open>A key context at the root, on an opening double quote, with the sibling names \<open>excl\<close>.\<close>

definition rootKeyCtx :: "string list \<Rightarrow> ctxInfo" where
  "rootKeyCtx excl =
     \<lparr>token = Some \<lparr>tstring = [dquote], tstart = 4, tend = 5\<rparr>, tokenType = Some TOKEN_KEY,
      offset = 1, keyName = Some [], parentKeyName = None, isArray = False,
      exclusionList = excl, shouldReplace = False\<rparr>"

text \<open>A small registry: a boolean preference that also lists values, and two more.\<close>

definition sampleData :: "(string \<times> entry) list" where
  "sampleData =
     [(''closeBrackets'', Entry (Some ''boolean'') (Some ''Close brackets'') None
         (Some [PStr ''yes'', PStr ''no'']) None None),
      (''true'', Entry (Some ''string'') None None None None None),
      (''fontSize'', Entry (Some ''string'') None None None None None)]"

text \<open>
  Registries that hold the root entry \<^verbatim>\<open>linting.prefer\<close> of type array, with the
  given values, and a root entry \<^verbatim>\<open>javascript\<close> with the given child keys.
\<close>

definition lintData :: "pval list option \<Rightarrow> (string \<times> entry) list \<Rightarrow> (string \<times> entry) list" where
  "lintData vals children =
     [(''linting.prefer'', Entry (Some ''array'') (Some ''Preferred linters'') None vals
         (Some ''string'') None),
      (''javascript'', Entry (Some ''object'') None (Some children) None None None)]"

definition spaceUnits :: "(string \<times> entry) list" where
  "spaceUnits = [(''spaceUnits'', Entry (Some ''number'') None None None None None)]"

definition booleanLint :: "(string \<times> entry) list" where
  "booleanLint = [(''linting.prefer'', Entry (Some ''boolean'') None None None None None)]"

text \<open>The stand-in environment with a language map that lacks \<^verbatim>\<open>javascript\<close>.\<close>

definition cssOnlyEnv :: env where
  "cssOnlyEnv = testEnv\<lparr>languages := [(''css'', noEntry)]\<rparr>"




text \<open>A key context on a lone opening double quote at column 0.\<close>

definition openQuoteKey :: ctxInfo where
  "openQuoteKey =
     \<lparr>token = Some \<lparr>tstring = [dquote], tstart = 0, tend = 1\<rparr>, tokenType = Some TOKEN_KEY,
      offset = 1, keyName = Some [], parentKeyName = None, isArray = False,
      exclusionList = [], shouldReplace = False\<rparr>"

section \<open>Properties\<close>

subsection \<open>insertHint\<close>

text \<open>
  With an editor, a context and a token, insertHint takes no throwing path: every
  remaining branch returns.
\<close>

lemma insertHint_no_error:
  assumes "this_editor this = Some ed"
    and "getContextInfo ed False True = Some ctx"
    and "token ctx = Some tok"
  shows "\<exists>r. insertHint e this c = Inr r"
  using assms
  by (simp add: insertHint_def Let_def split: option.splits token_type.splits)

text \<open>A type other than object, array and string adds no body after the colon.\<close>

lemma emptyBody_other_type:
  assumes "\<not> pairedType ty"
  shows "emptyBody ty = []"
  using assms by (auto simp: pairedType_def emptyBody_def)

text \<open>
  The value branch has a default: a token that does not start with a quote gets the
  double quote around an untyped completion.
\<close>

lemma insertValue_default_quote:
  assumes "quoteOf (tstring tok) = None" and "\<not> truthy ty"
  shows "\<exists>s t. fst (insertValue e ctx tok p text ty) = [ReplaceRange (dquote # text @ [dquote]) s t]"
  using assms
  by (auto simp: insertValue_def Let_def split: prod.splits)

text \<open>
  After an opening double quote the key branch does produce the quoted key, colon, space
  and braces, with the cursor between the braces.
\<close>

lemma insertHint_key_after_quote:
  "insertHint e (providerAt \<lparr>line = 0, ch = 1\<rparr> openQuoteKey) (hintOf ''foo'' (Some ''object''))
     = Inr ([ReplaceRange (dquote # ''foo'' @ dquote # '': {}'') \<lparr>line = 0, ch = 0\<rparr> \<lparr>line = 0, ch = 1\<rparr>,
             SetCursorPos 0 8], Some False)"
  by (simp add: insertHint_def insertKey_def providerAt_def editorAt_def hintOf_def
      completionType_def completionText_def hintText_def quoteOf_def js_str_def emptyBody_def
      pairedType_def openQuoteKey_def Let_def)

text \<open>
  C1: inserting the key candidate \<^verbatim>\<open>foo\<close> of type object on an empty line at
  column 0, without whole-token replacement. The key branch assigns \<^verbatim>\<open>quoteChar\<close>
  only when the token starts with a quote, so on the empty token the completion is
  wrapped in the text \<^verbatim>\<open>undefined\<close>: the edit inserts
  \<^verbatim>\<open>undefinedfooundefined: {}\<close>, not the quoted key. The cursor does go between the
  braces (column 24) and the result is \<^verbatim>\<open>false\<close>.
\<close>

theorem insertHint_key_empty_line:
  "insertHint e (providerAt \<lparr>line = 0, ch = 0\<rparr> emptyLineKey) (hintOf ''foo'' (Some ''object''))
     = Inr ([ReplaceRange ''undefinedfooundefined: {}'' \<lparr>line = 0, ch = 0\<rparr> \<lparr>line = 0, ch = 0\<rparr>,
             SetCursorPos 0 24], Some False)"
  by (simp add: insertHint_def insertKey_def providerAt_def editorAt_def hintOf_def
      completionType_def completionText_def hintText_def quoteOf_def js_str_def emptyBody_def
      pairedType_def emptyLineKey_def Let_def)

text \<open>
  C2: insertHint on a key token that does not start with a quote (the bare text
  \<^verbatim>\<open>fo\<close>). Nothing is thrown and the unknown type adds no body, but no default
  quote is used: the key branch has no counterpart of the value branch's
  \<^verbatim>\<open>quoteChar = "\""\<close>, and the inserted text is \<^verbatim>\<open>undefinedfooundefined: \<close>.
\<close>

theorem insertHint_key_bare_token:
  "insertHint e (providerAt \<lparr>line = 3, ch = 6\<rparr> bareKey) (PlainString ''foo'')
     = Inr ([ReplaceRange ''undefinedfooundefined: '' \<lparr>line = 3, ch = 4\<rparr> \<lparr>line = 3, ch = 6\<rparr>],
            Some True)"
  by (simp add: insertHint_def insertKey_def providerAt_def editorAt_def
      completionType_def completionText_def quoteOf_def js_str_def emptyBody_def
      pairedType_def bareKey_def Let_def)

text \<open>
  C3, as the code has it: for every key insertion, the result is \<^verbatim>\<open>true\<close> when the
  type is array or string and whole-token replacement is not indicated, \<^verbatim>\<open>false\<close>
  when the type is object, or is array or string with whole-token replacement, and
  \<^verbatim>\<open>true\<close> for every other type (boolean, number, none), whatever the replacement
  flag. When a paired opener was inserted (type object, array or string, no whole-token
  replacement), the one call after the replacement puts the cursor immediately inside
  the pair.
\<close>

theorem insertHint_key_continue_session:
  assumes "this_editor this = Some ed"
    and "getContextInfo ed False True = Some ctx"
    and "tokenType ctx = Some TOKEN_KEY"
    and "token ctx = Some tok"
  shows "\<exists>text startp endp more.
           insertHint e this c =
             Inr (ReplaceRange text startp endp # more,
                  Some (if pairedType (completionType c)
                        then completionType c \<noteq> Some ''object'' \<and> \<not> shouldReplace ctx
                        else True)) \<and>
           (pairedType (completionType c) \<and> \<not> shouldReplace ctx \<longrightarrow>
              (\<exists>cur. more = [SetCursorPos (line startp) cur] \<and> insidePair text (ch startp) cur))"
  using assms
  by (auto simp: insertHint_def insertKey_def Let_def insidePair_def emptyBody_def pairedType_def)

text \<open>
  The theorem above at a key of type array typed after an opening quote: the result is
  \<^verbatim>\<open>true\<close> and the cursor is between the brackets.
\<close>

theorem insertHint_key_continue_session_witness:
  "this_editor (providerAt \<lparr>line = 3, ch = 7\<rparr> (quotedKey False))
      = Some (editorAt \<lparr>line = 3, ch = 7\<rparr> (quotedKey False)) \<and>
   getContextInfo (editorAt \<lparr>line = 3, ch = 7\<rparr> (quotedKey False)) False True = Some (quotedKey False) \<and>
   tokenType (quotedKey False) = Some TOKEN_KEY \<and>
   token (quotedKey False) = Some \<lparr>tstring = dquote # ''fo'', tstart = 4, tend = 7\<rparr> \<and>
   pairedType (completionType (hintOf ''foo'' (Some ''array''))) \<and>
   \<not> shouldReplace (quotedKey False) \<and>
   (\<exists>text startp endp cur.
      insertHint testEnv (providerAt \<lparr>line = 3, ch = 7\<rparr> (quotedKey False)) (hintOf ''foo'' (Some ''array''))
        = Inr ([ReplaceRange text startp endp, SetCursorPos (line startp) cur], Some True) \<and>
      insidePair text (ch startp) cur)"
proof -
  let ?p = "\<lparr>line = 3, ch = 7\<rparr>"
  let ?c = "hintOf ''foo'' (Some ''array'')"
  have h1: "this_editor (providerAt ?p (quotedKey False)) = Some (editorAt ?p (quotedKey False))"
    by (simp add: providerAt_def)
  have h2: "getContextInfo (editorAt ?p (quotedKey False)) False True = Some (quotedKey False)"
    by (simp add: editorAt_def)
  have h3: "tokenType (quotedKey False) = Some TOKEN_KEY"
    by (simp add: quotedKey_def)
  have h4: "token (quotedKey False) = Some \<lparr>tstring = dquote # ''fo'', tstart = 4, tend = 7\<rparr>"
    by (simp add: quotedKey_def)
  have h5: "pairedType (completionType ?c)"
    by (simp add: pairedType_def completionType_def hintOf_def)
  have h6: "\<not> shouldReplace (quotedKey False)"
    by (simp add: quotedKey_def)
  from insertHint_key_continue_session [OF h1 h2 h3 h4, of testEnv ?c] h5 h6
  have "\<exists>text startp endp cur.
      insertHint testEnv (providerAt ?p (quotedKey False)) ?c
        = Inr ([ReplaceRange text startp endp, SetCursorPos (line startp) cur], Some True) \<and>
      insidePair text (ch startp) cur"
    by (auto simp: completionType_def hintOf_def)
  with h1 h2 h3 h4 h5 h6 show ?thesis by blast
qed

text \<open>
  C3 as stated fails: a key of type boolean, accepted where whole-token replacement is
  indicated, inserts no body, and still the result is \<^verbatim>\<open>true\<close>.
\<close>

theorem insertHint_key_boolean_continues:
  "insertHint testEnv (providerAt \<lparr>line = 3, ch = 7\<rparr> (quotedKey True)) (hintOf ''foo'' (Some ''boolean''))
     = Inr ([ReplaceRange (dquote # ''foo'' @ [dquote]) \<lparr>line = 3, ch = 4\<rparr> \<lparr>line = 3, ch = 7\<rparr>],
            Some True)"
  by (simp add: insertHint_def insertKey_def providerAt_def editorAt_def hintOf_def
      completionType_def completionText_def hintText_def quoteOf_def js_str_def emptyBody_def
      pairedType_def quotedKey_def Let_def)

text \<open>
  C9: an untyped value completion accepted over a token that starts with a single
  quote, with whole-token replacement indicated, replaces the columns of the whole token
  with the completion between single quotes, and the result is \<^verbatim>\<open>false\<close>.
\<close>

theorem insertHint_value_single_quote:
  assumes "this_editor this = Some ed"
    and "getContextInfo ed False True = Some ctx"
    and "tokenType ctx = Some TOKEN_VALUE"
    and "token ctx = Some tok"
    and "tstring tok = squote # rest"
    and "\<not> regexAllowedChars e (tstring tok)"
    and "shouldReplace ctx"
    and "completionType c = None"
  shows "insertHint e this c =
           Inr ([ReplaceRange (squote # completionText c @ [squote])
                   \<lparr>line = line (getCursorPos ed), ch = tstart tok\<rparr>
                   \<lparr>line = line (getCursorPos ed), ch = tend tok\<rparr>], Some False)"
  using assms
  by (simp add: insertHint_def insertValue_def Let_def quoteOf_def truthy_def)

text \<open>
  The theorem above at the completion \<^verbatim>\<open>bar\<close> over the token \<^verbatim>\<open>'b'\<close> at columns
  10 to 13: the edit replaces those columns with \<^verbatim>\<open>'bar'\<close>.
\<close>

theorem insertHint_value_single_quote_witness:
  "\<not> regexAllowedChars testEnv (squote # ''b'' @ [squote]) \<and>
   shouldReplace singleQuotedValue \<and>
   completionType (PlainString ''bar'') = None \<and>
   insertHint testEnv (providerAt \<lparr>line = 1, ch = 12\<rparr> singleQuotedValue) (PlainString ''bar'')
     = Inr ([ReplaceRange (squote # ''bar'' @ [squote]) \<lparr>line = 1, ch = 10\<rparr> \<lparr>line = 1, ch = 13\<rparr>],
            Some False)"
proof -
  let ?p = "\<lparr>line = 1, ch = 12\<rparr>"
  let ?tok = "\<lparr>tstring = squote # ''b'' @ [squote], tstart = 10, tend = 13\<rparr>"
  have h1: "this_editor (providerAt ?p singleQuotedValue) = Some (editorAt ?p singleQuotedValue)"
    by (simp add: providerAt_def)
  have h2: "getContextInfo (editorAt ?p singleQuotedValue) False True = Some singleQuotedValue"
    by (simp add: editorAt_def)
  have h3: "tokenType singleQuotedValue = Some TOKEN_VALUE"
    by (simp add: singleQuotedValue_def)
  have h4: "token singleQuotedValue = Some ?tok"
    by (simp add: singleQuotedValue_def)
  have h5: "tstring ?tok = squote # (''b'' @ [squote])"
    by simp
  have h6: "\<not> regexAllowedChars testEnv (tstring ?tok)"
    by (simp add: testEnv_def regexAllowedModel_def isSpace_def)
  have h7: "shouldReplace singleQuotedValue"
    by (simp add: singleQuotedValue_def)
  have h8: "completionType (PlainString ''bar'') = None"
    by (simp add: completionType_def)
  from insertHint_value_single_quote [OF h1 h2 h3 h4 h5 h6 h7 h8] h6 h7 h8
  show ?thesis
    by (simp add: completionText_def editorAt_def)
qed

subsection \<open>hasHints\<close>

text \<open>
  C7: with hints enabled, the mode \<^verbatim>\<open>application/json\<close> and a key context whose
  parent key is \<^verbatim>\<open>language.fileExtensions\<close>, hasHints answers \<^verbatim>\<open>false\<close> (and has
  stored the editor and the context).
\<close>

theorem hasHints_fileExtensions_key:
  assumes "getModeForSelection ed = ''application/json''"
    and "getContextInfo ed True False = Some ctx"
    and "tokenType ctx = Some TOKEN_KEY"
    and "parentKeyName ctx = Some ''language.fileExtensions''"
  shows "hasHints True this ed = (False, \<lparr>this_editor = Some ed, this_ctxInfo = Some ctx\<rparr>)"
  using assms
  by (simp add: hasHints_def blacklisted_def parentKeyBlacklist_def)

text \<open>The theorem above at an editor whose cursor is in such a key.\<close>

theorem hasHints_fileExtensions_key_witness:
  "getModeForSelection (editorAt \<lparr>line = 2, ch = 9\<rparr> fileExtensionsKey) = ''application/json'' \<and>
   tokenType fileExtensionsKey = Some TOKEN_KEY \<and>
   parentKeyName fileExtensionsKey = Some ''language.fileExtensions'' \<and>
   fst (hasHints True \<lparr>this_editor = None, this_ctxInfo = None\<rparr>
          (editorAt \<lparr>line = 2, ch = 9\<rparr> fileExtensionsKey)) = False"
proof -
  let ?ed = "editorAt \<lparr>line = 2, ch = 9\<rparr> fileExtensionsKey"
  have h1: "getModeForSelection ?ed = ''application/json''"
    by (simp add: editorAt_def)
  have h2: "getContextInfo ?ed True False = Some fileExtensionsKey"
    by (simp add: editorAt_def)
  have h3: "tokenType fileExtensionsKey = Some TOKEN_KEY"
    by (simp add: fileExtensionsKey_def)
  have h4: "parentKeyName fileExtensionsKey = Some ''language.fileExtensions''"
    by (simp add: fileExtensionsKey_def)
  from hasHints_fileExtensions_key [OF h1 h2 h3 h4] h1 h3 h4 show ?thesis by simp
qed

subsection \<open>getHints\<close>

text \<open>getHints in a value context with a token: the answer follows the candidate values.\<close>

lemma getHints_value:
  assumes "this_editor this = Some ed"
    and "getContextInfo ed True False = Some ctx"
    and "token ctx = Some tok"
    and "tokenType ctx = Some TOKEN_VALUE"
  shows "getHints e data this =
           Inr (this\<lparr>this_ctxInfo := Some ctx\<rparr>,
                case candidateValues e data ctx of
                  None \<Rightarrow> None
                | Some vals \<Rightarrow>
                    Some (response (formatHints e
                            (valueHints e (resolveOption data ctx) vals (getQuery e tok (offset ctx)))
                            (getQuery e tok (offset ctx)))))"
  using assms by (simp add: getHints_def hintsFor_def Let_def)

lemma toString_PStr: "toString (PStr s) = PStr s"
  by (simp add: toString_def)

lemma matchText_update: "matchText (m\<lparr>mtype := a, mdescription := b\<rparr>) = matchText m"
  by (simp add: matchText_def renderHint_def hintText_def split: option.splits)

lemma hintText_renderHint: "hintText (renderHint b m) = matchText m"
  by (simp add: matchText_def renderHint_def hintText_def)

text \<open>A key that yields a hint is not on the exclusion list, and the hint shows its match.\<close>

lemma keyHint_Some:
  assumes "keyHint e ctx query ot (key, k) = Some m"
  shows "key \<notin> set (exclusionList ctx) \<and>
         (\<exists>m0. stringMatch e (PStr key) query = Some m0 \<and> matchText m = matchText m0)"
  using assms
  by (auto simp: keyHint_def matchText_update split: if_splits option.splits)

lemma keyHints_not_excluded:
  assumes names: "\<And>s q m. stringMatch e (PStr s) q = Some m \<Longrightarrow> matchText m = s"
    and "m \<in> set (keyHints e data ctx query)"
  shows "matchText m \<notin> set (exclusionList ctx)"
proof -
  obtain ks ot where kf: "keysFor e data ctx = (ks, ot)"
    by (cases "keysFor e data ctx")
  with assms(2) obtain kv where "keyHint e ctx query ot kv = Some m"
    by (auto simp: keyHints_def List.map_filter_def)
  then obtain key k where "keyHint e ctx query ot (key, k) = Some m"
    by (cases kv) simp
  from keyHint_Some [OF this] names show ?thesis by auto
qed

text \<open>The stand-in matcher renders a match with the text of its candidate.\<close>

lemma prefixMatch_names:
  assumes "prefixMatch (PStr s) q = Some m"
  shows "matchText m = s"
proof (cases "q = []")
  case True
  with assms show ?thesis
    by (auto simp: prefixMatch_def matchText_def renderHint_def hintText_def)
next
  case False
  with assms have "take (length q) s = q" and "matchText m = q @ drop (length q) s"
    by (auto simp: prefixMatch_def matchText_def renderHint_def hintText_def split: if_splits)
  then show ?thesis
    by (metis append_take_drop_id)
qed

text \<open>
  C4, as the code has it: in every key context, over every registry, no hint that
  getHints returns shows a name of the context's exclusion list. The matcher is taken
  to render a match with the text of the candidate it was given, and the sort to return
  only matches it was given. Value candidates are not compared with the exclusion list.
\<close>

theorem getHints_key_not_excluded:
  assumes "this_editor this = Some ed"
    and "getContextInfo ed True False = Some ctx"
    and "token ctx = Some tok"
    and "tokenType ctx = Some TOKEN_KEY"
    and names: "\<And>s q m. stringMatch e (PStr s) q = Some m \<Longrightarrow> matchText m = s"
    and sorted: "\<And>ms. set (basicMatchSort e ms) \<subseteq> set ms"
  shows "\<exists>r. getHints e data this = Inr (this\<lparr>this_ctxInfo := Some ctx\<rparr>, Some r) \<and>
             (\<forall>h \<in> set (hints r). hintText h \<notin> set (exclusionList ctx))"
proof -
  let ?q = "getQuery e tok (offset ctx)"
  let ?r = "response (formatHints e (keyHints e data ctx ?q) ?q)"
  have g: "getHints e data this = Inr (this\<lparr>this_ctxInfo := Some ctx\<rparr>, Some ?r)"
    using assms(1-4) by (simp add: getHints_def hintsFor_def Let_def)
  have "hintText h \<notin> set (exclusionList ctx)" if "h \<in> set (hints ?r)" for h
  proof -
    from that obtain b m where m: "m \<in> set (basicMatchSort e (keyHints e data ctx ?q))"
      and h: "h = renderHint b m"
      by (auto simp: response_def formatHints_def Let_def)
    from m sorted have "m \<in> set (keyHints e data ctx ?q)" by blast
    from keyHints_not_excluded [OF names this] show ?thesis
      by (simp add: h hintText_renderHint)
  qed
  with g show ?thesis by blast
qed

text \<open>
  The theorem above at the root of a registry with the keys \<^verbatim>\<open>closeBrackets\<close>,
  \<^verbatim>\<open>true\<close> and \<^verbatim>\<open>fontSize\<close>, where \<^verbatim>\<open>true\<close> is already a sibling: no hint
  shows \<^verbatim>\<open>true\<close>.
\<close>

theorem getHints_key_not_excluded_witness:
  "tokenType (rootKeyCtx [''true'']) = Some TOKEN_KEY \<and>
   exclusionList (rootKeyCtx [''true'']) = [''true''] \<and>
   map fst sampleData = [''closeBrackets'', ''true'', ''fontSize''] \<and>
   (\<exists>r. getHints testEnv sampleData (providerAt \<lparr>line = 2, ch = 5\<rparr> (rootKeyCtx [''true'']))
           = Inr ((providerAt \<lparr>line = 2, ch = 5\<rparr> (rootKeyCtx [''true'']))
                    \<lparr>this_ctxInfo := Some (rootKeyCtx [''true''])\<rparr>, Some r) \<and>
         list_all (\<lambda>h. hintText h \<noteq> ''true'') (hints r))"
proof -
  let ?ctx = "rootKeyCtx [''true'']"
  let ?p = "\<lparr>line = 2, ch = 5\<rparr>"
  have h1: "this_editor (providerAt ?p ?ctx) = Some (editorAt ?p ?ctx)"
    by (simp add: providerAt_def)
  have h2: "getContextInfo (editorAt ?p ?ctx) True False = Some ?ctx"
    by (simp add: editorAt_def)
  have h3: "token ?ctx = Some \<lparr>tstring = [dquote], tstart = 4, tend = 5\<rparr>"
    by (simp add: rootKeyCtx_def)
  have h4: "tokenType ?ctx = Some TOKEN_KEY"
    by (simp add: rootKeyCtx_def)
  have h5: "\<And>s q m. stringMatch testEnv (PStr s) q = Some m \<Longrightarrow> matchText m = s"
    by (simp add: testEnv_def prefixMatch_names)
  have h6: "\<And>ms. set (basicMatchSort testEnv ms) \<subseteq> set ms"
    by (simp add: testEnv_def keepOrder_def)
  have x: "exclusionList ?ctx = [''true'']"
    by (simp add: rootKeyCtx_def)
  have d: "map fst sampleData = [''closeBrackets'', ''true'', ''fontSize'']"
    by (simp add: sampleData_def)
  from getHints_key_not_excluded [OF h1 h2 h3 h4 h5 h6, where data = sampleData] x
  have "\<exists>r. getHints testEnv sampleData (providerAt ?p ?ctx)
           = Inr ((providerAt ?p ?ctx)\<lparr>this_ctxInfo := Some ?ctx\<rparr>, Some r) \<and>
         list_all (\<lambda>h. hintText h \<noteq> ''true'') (hints r)"
    by (auto simp: list_all_iff)
  with h4 x d show ?thesis by blast
qed

text \<open>
  C4 as stated fails in a value context: with \<^verbatim>\<open>true\<close> on the exclusion list, the
  hints for a boolean preference still hold \<^verbatim>\<open>true\<close>.
\<close>

theorem getHints_value_keeps_excluded:
  "exclusionList (valueCtx None ''closeBrackets'' False [''true'']) = [''true''] \<and>
   getHints testEnv sampleData (providerAt \<lparr>line = 2, ch = 13\<rparr> (valueCtx None ''closeBrackets'' False [''true'']))
     = Inr ((providerAt \<lparr>line = 2, ch = 13\<rparr> (valueCtx None ''closeBrackets'' False [''true'']))
              \<lparr>this_ctxInfo := Some (valueCtx None ''closeBrackets'' False [''true''])\<rparr>,
            Some \<lparr>hints = [\<lparr>hintObj = [(''false'', False)], dataType = Some ''boolean'',
                              hintDescription = Some ''Close brackets''\<rparr>,
                           \<lparr>hintObj = [(''true'', False)], dataType = Some ''boolean'',
                              hintDescription = Some ''Close brackets''\<rparr>],
                  rmatch = None, selectInitial = True, handleWideResults = False\<rparr>) \<and>
   hintText \<lparr>hintObj = [(''true'', False)], dataType = Some ''boolean'',
             hintDescription = Some ''Close brackets''\<rparr> = ''true''"
  by (simp add: getHints_def hintsFor_def candidateValues_def getValues_def stringifyValues_def
      valueHints_def valueHint_def formatHints_def renderHint_def response_def getQuery_def
      List.map_filter_def js_or_def truthy_def trim_def substr0_def isSpace_def quoteOf_def
      valueCtx_def providerAt_def editorAt_def resolveOption_def getProp_def propName_def
      inheritedNames_def
      defaultOption_def sampleData_def testEnv_def stripQuotesModel_def
      regexAllowedModel_def prefixMatch_def keepOrder_def hintText_def Let_def)

text \<open>
  C5: in a value context whose resolved option has type boolean, the unranked
  candidates are \<^verbatim>\<open>"false"\<close> and \<^verbatim>\<open>"true"\<close>, in this order, whatever values the
  option lists, and getHints answers with the matches among these two.
\<close>

theorem getHints_boolean_values:
  assumes "this_editor this = Some ed"
    and "getContextInfo ed True False = Some ctx"
    and "token ctx = Some tok"
    and "tokenType ctx = Some TOKEN_VALUE"
    and "etype (resolveOption data ctx) = Some ''boolean''"
  shows "candidateValues e data ctx = Some [PStr ''false'', PStr ''true''] \<and>
         getHints e data this =
           Inr (this\<lparr>this_ctxInfo := Some ctx\<rparr>,
                Some (response (formatHints e
                        (valueHints e (resolveOption data ctx) [PStr ''false'', PStr ''true'']
                           (getQuery e tok (offset ctx)))
                        (getQuery e tok (offset ctx)))))"
proof -
  have cv: "candidateValues e data ctx = Some [PStr ''false'', PStr ''true'']"
    using assms(5)
    by (simp add: candidateValues_def getValues_def stringifyValues_def toString_PStr Let_def)
  show ?thesis
    using cv getHints_value [OF assms(1-4), of e data] by simp
qed

text \<open>
  The theorem above at a boolean preference that lists the values \<^verbatim>\<open>yes\<close> and
  \<^verbatim>\<open>no\<close>: the candidates are still \<^verbatim>\<open>false\<close> and \<^verbatim>\<open>true\<close>.
\<close>

theorem getHints_boolean_values_witness:
  "tokenType (valueCtx None ''closeBrackets'' False []) = Some TOKEN_VALUE \<and>
   etype (resolveOption sampleData (valueCtx None ''closeBrackets'' False [])) = Some ''boolean'' \<and>
   evalues (resolveOption sampleData (valueCtx None ''closeBrackets'' False []))
     = Some [PStr ''yes'', PStr ''no''] \<and>
   candidateValues testEnv sampleData (valueCtx None ''closeBrackets'' False [])
     = Some [PStr ''false'', PStr ''true'']"
proof -
  let ?ctx = "valueCtx None ''closeBrackets'' False []"
  let ?p = "\<lparr>line = 2, ch = 13\<rparr>"
  have h1: "this_editor (providerAt ?p ?ctx) = Some (editorAt ?p ?ctx)"
    by (simp add: providerAt_def)
  have h2: "getContextInfo (editorAt ?p ?ctx) True False = Some ?ctx"
    by (simp add: editorAt_def)
  have h3: "token ?ctx = Some \<lparr>tstring = [dquote], tstart = 12, tend = 13\<rparr>"
    by (simp add: valueCtx_def)
  have h4: "tokenType ?ctx = Some TOKEN_VALUE"
    by (simp add: valueCtx_def)
  have r: "resolveOption sampleData ?ctx =
             Entry (Some ''boolean'') (Some ''Close brackets'') None (Some [PStr ''yes'', PStr ''no'']) None None"
    by (simp add: resolveOption_def getProp_def propName_def inheritedNames_def sampleData_def valueCtx_def)
  have h5: "etype (resolveOption sampleData ?ctx) = Some ''boolean''"
    by (simp add: r)
  from getHints_boolean_values [OF h1 h2 h3 h4 h5, of testEnv] h4 h5 r show ?thesis by simp
qed



text \<open>The option of a value context is the child entry when there is one, the root entry otherwise.\<close>

lemma resolveOption_nested:
  "resolveOption data ctx =
     (case nestedOption data ctx of
        Some opt \<Rightarrow> opt
      | None \<Rightarrow> (case getProp data (keyName ctx) of None \<Rightarrow> defaultOption | Some opt \<Rightarrow> opt))"
  by (simp add: resolveOption_def nestedOption_def split: option.splits)

text \<open>
  C8, as the code has it: with a root entry \<^verbatim>\<open>linting.prefer\<close> of type array that
  lists no values, no child entry \<^verbatim>\<open>linting.prefer\<close> under a root entry
  \<^verbatim>\<open>javascript\<close>, and \<^verbatim>\<open>javascript\<close> a key of the language map, the unranked
  candidates of the value context (parent \<^verbatim>\<open>javascript\<close>, key \<^verbatim>\<open>linting.prefer\<close>,
  inside an array) are the provider ids of \<^verbatim>\<open>javascript\<close>, in the providers' order,
  and getHints answers with the matches among them.
\<close>

theorem getHints_lint_providers:
  assumes "this_editor this = Some ed"
    and "getContextInfo ed True False = Some ctx"
    and "token ctx = Some tok"
    and "tokenType ctx = Some TOKEN_VALUE"
    and "parentKeyName ctx = Some ''javascript''"
    and "keyName ctx = Some ''linting.prefer''"
    and "isArray ctx"
    and "getProp data (Some ''linting.prefer'') = Some en"
    and "etype en = Some ''array''"
    and "evalues en = None"
    and "nestedOption data ctx = None"
    and "getProp (languages e) (Some ''javascript'') \<noteq> None"
  shows "candidateValues e data ctx = Some (map PStr (getProviderIDsForLanguage e (Some ''javascript''))) \<and>
         getHints e data this =
           Inr (this\<lparr>this_ctxInfo := Some ctx\<rparr>,
                Some (response (formatHints e
                        (valueHints e en (map PStr (getProviderIDsForLanguage e (Some ''javascript'')))
                           (getQuery e tok (offset ctx)))
                        (getQuery e tok (offset ctx)))))"
proof -
  have r: "resolveOption data ctx = en"
    using assms(6,8,11) by (simp add: resolveOption_nested)
  have "getValues e ctx en = Some (map PStr (getProviderIDsForLanguage e (Some ''javascript'')))"
    using assms(5,6,7,9,10,12)
    by (simp add: getValues_def allowedValuesApply_def lintProvidersApply_def)
  moreover have "stringifyValues en (map PStr xs) = map PStr xs" for xs
    by (simp add: stringifyValues_def toString_PStr)
  ultimately have cv: "candidateValues e data ctx =
      Some (map PStr (getProviderIDsForLanguage e (Some ''javascript'')))"
    by (simp add: candidateValues_def r Let_def)
  show ?thesis
    using cv r getHints_value [OF assms(1-4), of e data] by simp
qed

text \<open>
  The theorem above with the providers \<^verbatim>\<open>JSLint\<close> and \<^verbatim>\<open>ESLint\<close> registered for
  \<^verbatim>\<open>javascript\<close>, in a registry whose root entry \<^verbatim>\<open>javascript\<close> has the one child
  \<^verbatim>\<open>spaceUnits\<close>.
\<close>

theorem getHints_lint_providers_witness:
  "tokenType (valueCtx (Some ''javascript'') ''linting.prefer'' True []) = Some TOKEN_VALUE \<and>
   getProp (lintData None spaceUnits) (Some ''linting.prefer'')
     = Some (Entry (Some ''array'') (Some ''Preferred linters'') None None (Some ''string'') None) \<and>
   getProp (lintData None spaceUnits) (Some ''javascript'')
     = Some (Entry (Some ''object'') None (Some spaceUnits) None None None) \<and>
   nestedOption (lintData None spaceUnits) (valueCtx (Some ''javascript'') ''linting.prefer'' True [])
     = None \<and>
   getProp (languages testEnv) (Some ''javascript'') \<noteq> None \<and>
   candidateValues testEnv (lintData None spaceUnits)
      (valueCtx (Some ''javascript'') ''linting.prefer'' True [])
     = Some [PStr ''JSLint'', PStr ''ESLint'']"
proof -
  let ?ctx = "valueCtx (Some ''javascript'') ''linting.prefer'' True []"
  let ?en = "Entry (Some ''array'') (Some ''Preferred linters'') None None (Some ''string'') None"
  let ?p = "\<lparr>line = 2, ch = 13\<rparr>"
  have e1: "this_editor (providerAt ?p ?ctx) = Some (editorAt ?p ?ctx)"
    by (simp add: providerAt_def)
  have e2: "getContextInfo (editorAt ?p ?ctx) True False = Some ?ctx"
    by (simp add: editorAt_def)
  have e3: "token ?ctx = Some \<lparr>tstring = [dquote], tstart = 12, tend = 13\<rparr>"
    by (simp add: valueCtx_def)
  have h1: "tokenType ?ctx = Some TOKEN_VALUE" by (simp add: valueCtx_def)
  have h2: "parentKeyName ?ctx = Some ''javascript''" by (simp add: valueCtx_def)
  have h3: "keyName ?ctx = Some ''linting.prefer''" by (simp add: valueCtx_def)
  have h4: "isArray ?ctx" by (simp add: valueCtx_def)
  have h5: "getProp (lintData None spaceUnits) (Some ''linting.prefer'') = Some ?en"
    by (simp add: getProp_def propName_def lintData_def)
  have h6: "etype ?en = Some ''array''" by simp
  have h7: "evalues ?en = None" by simp
  have j: "getProp (lintData None spaceUnits) (Some ''javascript'')
             = Some (Entry (Some ''object'') None (Some spaceUnits) None None None)"
    by (simp add: getProp_def propName_def lintData_def)
  have k: "getProp spaceUnits (Some ''linting.prefer'') = None"
    by (simp add: getProp_def propName_def spaceUnits_def inheritedNames_def)
  have h8: "nestedOption (lintData None spaceUnits) ?ctx = None"
    by (simp add: nestedOption_def h2 h3 j k)
  have h9: "getProp (languages testEnv) (Some ''javascript'') \<noteq> None"
    by (simp add: getProp_def propName_def testEnv_def)
  from getHints_lint_providers [OF e1 e2 e3 h1 h2 h3 h4 h5 h6 h7 h8 h9] h1 h5 j h8 h9
  show ?thesis
    by (simp add: testEnv_def)
qed

text \<open>
  C8 as stated fails in three ways, each with providers registered for
  \<^verbatim>\<open>javascript\<close> and the root entry of type array in the registry. When the language
  map has no key \<^verbatim>\<open>javascript\<close>, the context yields no candidates. When the entry
  lists values of its own, these are the candidates. When a root entry
  \<^verbatim>\<open>javascript\<close> has a boolean child \<^verbatim>\<open>linting.prefer\<close>, the child is the option
  and the candidates are \<^verbatim>\<open>false\<close> and \<^verbatim>\<open>true\<close>.
\<close>

theorem getHints_lint_providers_not_offered:
  "getProviderIDsForLanguage cssOnlyEnv (Some ''javascript'') = [''JSLint'', ''ESLint''] \<and>
   candidateValues cssOnlyEnv (lintData None spaceUnits)
      (valueCtx (Some ''javascript'') ''linting.prefer'' True [])
     = None \<and>
   getProviderIDsForLanguage testEnv (Some ''javascript'') = [''JSLint'', ''ESLint''] \<and>
   candidateValues testEnv (lintData (Some [PStr ''Mine'']) spaceUnits)
      (valueCtx (Some ''javascript'') ''linting.prefer'' True [])
     = Some [PStr ''Mine''] \<and>
   candidateValues testEnv (lintData None booleanLint)
      (valueCtx (Some ''javascript'') ''linting.prefer'' True [])
     = Some [PStr ''false'', PStr ''true'']"
  by (simp add: cssOnlyEnv_def testEnv_def candidateValues_def getValues_def stringifyValues_def
      resolveOption_def getProp_def propName_def inheritedNames_def defaultOption_def lintData_def
      spaceUnits_def booleanLint_def valueCtx_def allowedValuesApply_def lintProvidersApply_def
      themesApply_def languageNamesApply_def Let_def)

subsection \<open>The schema registry\<close>













end
